theory Spec2Isabelle
  imports Main "HOL-Library.Word"
begin

section \<open>The controller service of the PowerVS block CSI driver\<close>

text \<open>
  A shallow embedding of \<^verbatim>\<open>pkg/driver/controller.go\<close>. Go's \<^verbatim>\<open>int64\<close> and
  \<^verbatim>\<open>int32\<close> are 64- and 32-bit words read as two's complement, so arithmetic wraps
  and comparisons are the signed ones. A Go function returning \<^verbatim>\<open>(response, error)\<close>
  returns a sum here, \<open>Inl\<close> carrying the error.
\<close>

type_synonym int64 = "64 word"
type_synonym int32 = "32 word"

subsection \<open>gRPC status\<close>

text \<open>
  The codes of \<^verbatim>\<open>google.golang.org/grpc/codes\<close> that the controller uses. A status
  is kept as its code: the message text (built with \<^verbatim>\<open>%q\<close> and \<^verbatim>\<open>%v\<close>, from the
  texts of the cloud package's errors and from \<^verbatim>\<open>util.GetAccessModes\<close>) is not
  modelled, so \<^verbatim>\<open>status.Error(c, msg)\<close> and \<^verbatim>\<open>status.Errorf(c, ...)\<close> are both
  \<open>Status c\<close>.
\<close>

datatype codes = InvalidArgument | NotFound | AlreadyExists | Internal | Unimplemented

datatype status = Status codes

subsection \<open>Package cloud: errors, disks and the Cloud interface\<close>

text \<open>
  The controller compares the errors of the cloud package by identity with three
  sentinels; every other error value is \<open>ErrOther\<close> with its text.
\<close>

datatype cloud_error =
    ErrNotFound
  | ErrIdempotentParameterMismatch
  | ErrAlreadyExists
  | ErrOther string

text \<open>The fields of \<^verbatim>\<open>cloud.Disk\<close> and \<^verbatim>\<open>cloud.DiskOptions\<close> that the controller uses.\<close>

record Disk =
  VolumeID :: string
  CapacityGiB :: int64
  WWN :: string

record DiskOptions =
  Shareable :: bool
  CapacityBytes :: int64
  VolumeType :: string

text \<open>
  Modelled from the spec: the \<^verbatim>\<open>cloud.Cloud\<close> interface (the Disk Store Client), whose
  declaration is not in these sources. The spec gives its operations as
  create-disk \<open>\<rightarrow>\<close> disk | error, delete-disk \<open>\<rightarrow>\<close> error, get-disk-by-id \<open>\<rightarrow>\<close> disk | error,
  get-instance-by-id \<open>\<rightarrow>\<close> instance | error, attach-disk \<open>\<rightarrow>\<close> error, detach-disk \<open>\<rightarrow>\<close> error,
  is-attached \<open>\<rightarrow>\<close> (bool, error), resize-disk \<open>\<rightarrow>\<close> actualSizeGiB | error. The store is
  remote and fallible: each operation reads and may change a state \<open>'s\<close> the
  controller never sees, and nothing is assumed about it. The controller discards
  the first result of \<^verbatim>\<open>DeleteDisk\<close> and of \<^verbatim>\<open>GetPVMInstanceByID\<close>, so only their error
  is kept (\<open>None\<close> is Go's \<^verbatim>\<open>nil\<close>).
\<close>

record 's Cloud =
  CreateDisk :: "string \<Rightarrow> DiskOptions \<Rightarrow> 's \<Rightarrow> (cloud_error + Disk) \<times> 's"
  DeleteDisk :: "string \<Rightarrow> 's \<Rightarrow> cloud_error option \<times> 's"
  AttachDisk :: "string \<Rightarrow> string \<Rightarrow> 's \<Rightarrow> cloud_error option \<times> 's"
  DetachDisk :: "string \<Rightarrow> string \<Rightarrow> 's \<Rightarrow> cloud_error option \<times> 's"
  ResizeDisk :: "string \<Rightarrow> int64 \<Rightarrow> 's \<Rightarrow> (cloud_error + int64) \<times> 's"
  GetDiskByID :: "string \<Rightarrow> 's \<Rightarrow> (cloud_error + Disk) \<times> 's"
  GetPVMInstanceByID :: "string \<Rightarrow> 's \<Rightarrow> cloud_error option \<times> 's"
  IsAttached :: "string \<Rightarrow> string \<Rightarrow> 's \<Rightarrow> (bool \<times> cloud_error option) \<times> 's"

text \<open>
  \<^verbatim>\<open>controllerService\<close>: the operations below use its \<^verbatim>\<open>cloud\<close> field only.
\<close>

record 's controllerService =
  cloud :: "'s Cloud"

subsection \<open>The remote calls of one operation\<close>

text \<open>
  To say which remote calls an operation issues, the state threaded through the
  controller is the store's state together with the list of the calls sent so
  far, oldest first. Every use of \<^verbatim>\<open>d.cloud\<close> in the source goes through one of the
  functions \<open>cloud_\<dots>\<close> below, which runs the store's operation and appends the call.
\<close>

datatype call =
    CallCreateDisk string DiskOptions
  | CallDeleteDisk string
  | CallAttachDisk string string
  | CallDetachDisk string string
  | CallResizeDisk string int64
  | CallGetDiskByID string
  | CallGetPVMInstanceByID string
  | CallIsAttached string string

record 's world =
  remote :: 's
  calls :: "call list"

definition issue :: "call \<Rightarrow> ('s \<Rightarrow> 'r \<times> 's) \<Rightarrow> 's world \<Rightarrow> 'r \<times> 's world" where
  "issue c f w =
     (case f (remote w) of (r, s') \<Rightarrow> (r, \<lparr>remote = s', calls = calls w @ [c]\<rparr>))"

definition cloud_CreateDisk ::
  "'s controllerService \<Rightarrow> string \<Rightarrow> DiskOptions \<Rightarrow> 's world \<Rightarrow> (cloud_error + Disk) \<times> 's world" where
  "cloud_CreateDisk d volName opts = issue (CallCreateDisk volName opts) (CreateDisk (cloud d) volName opts)"

definition cloud_DeleteDisk ::
  "'s controllerService \<Rightarrow> string \<Rightarrow> 's world \<Rightarrow> cloud_error option \<times> 's world" where
  "cloud_DeleteDisk d volumeID = issue (CallDeleteDisk volumeID) (DeleteDisk (cloud d) volumeID)"

definition cloud_AttachDisk ::
  "'s controllerService \<Rightarrow> string \<Rightarrow> string \<Rightarrow> 's world \<Rightarrow> cloud_error option \<times> 's world" where
  "cloud_AttachDisk d volumeID nodeID =
     issue (CallAttachDisk volumeID nodeID) (AttachDisk (cloud d) volumeID nodeID)"

definition cloud_DetachDisk ::
  "'s controllerService \<Rightarrow> string \<Rightarrow> string \<Rightarrow> 's world \<Rightarrow> cloud_error option \<times> 's world" where
  "cloud_DetachDisk d volumeID nodeID =
     issue (CallDetachDisk volumeID nodeID) (DetachDisk (cloud d) volumeID nodeID)"

definition cloud_ResizeDisk ::
  "'s controllerService \<Rightarrow> string \<Rightarrow> int64 \<Rightarrow> 's world \<Rightarrow> (cloud_error + int64) \<times> 's world" where
  "cloud_ResizeDisk d volumeID newSize =
     issue (CallResizeDisk volumeID newSize) (ResizeDisk (cloud d) volumeID newSize)"

definition cloud_GetDiskByID ::
  "'s controllerService \<Rightarrow> string \<Rightarrow> 's world \<Rightarrow> (cloud_error + Disk) \<times> 's world" where
  "cloud_GetDiskByID d volumeID = issue (CallGetDiskByID volumeID) (GetDiskByID (cloud d) volumeID)"

definition cloud_GetPVMInstanceByID ::
  "'s controllerService \<Rightarrow> string \<Rightarrow> 's world \<Rightarrow> cloud_error option \<times> 's world" where
  "cloud_GetPVMInstanceByID d nodeID =
     issue (CallGetPVMInstanceByID nodeID) (GetPVMInstanceByID (cloud d) nodeID)"

definition cloud_IsAttached ::
  "'s controllerService \<Rightarrow> string \<Rightarrow> string \<Rightarrow> 's world \<Rightarrow> (bool \<times> cloud_error option) \<times> 's world" where
  "cloud_IsAttached d volumeID nodeID =
     issue (CallIsAttached volumeID nodeID) (IsAttached (cloud d) volumeID nodeID)"

subsection \<open>CSI messages\<close>

text \<open>
  The request and response messages of the CSI library, with the fields the
  controller reads or writes. An access mode is an \<^verbatim>\<open>int32\<close> enum; the getter
  \<^verbatim>\<open>GetMode\<close> of a \<^verbatim>\<open>nil\<close> access mode returns the zero value \<^verbatim>\<open>UNKNOWN\<close>.
\<close>

definition VolumeCapability_AccessMode_UNKNOWN :: int32 where
  "VolumeCapability_AccessMode_UNKNOWN = 0"

definition VolumeCapability_AccessMode_SINGLE_NODE_WRITER :: int32 where
  "VolumeCapability_AccessMode_SINGLE_NODE_WRITER = 1"

record VolumeCapability_AccessMode =
  Mode :: int32

record VolumeCapability =
  AccessMode :: "VolumeCapability_AccessMode option"

definition GetMode :: "VolumeCapability_AccessMode option \<Rightarrow> int32" where
  "GetMode m = (case m of None \<Rightarrow> VolumeCapability_AccessMode_UNKNOWN | Some a \<Rightarrow> Mode a)"

record CapacityRange =
  RequiredBytes :: int64
  LimitBytes :: int64

text \<open>
  \<^verbatim>\<open>Parameters\<close> is a Go map, and the controller ranges over it: the list holds its
  entries in the order of that iteration, which Go leaves unspecified.
\<close>

record CreateVolumeRequest =
  Name :: string
  CapacityRange :: "CapacityRange option"
  VolumeCapabilities :: "VolumeCapability list"
  Parameters :: "(string \<times> string) list"

record Volume =
  VolumeId :: string
  CapacityBytes :: int64
  VolumeContext :: "string \<rightharpoonup> string"
  ContentSource :: "unit option"

record CreateVolumeResponse =
  Volume :: Volume

record DeleteVolumeRequest =
  VolumeId :: string

datatype DeleteVolumeResponse = DeleteVolumeResponse

record ControllerPublishVolumeRequest =
  VolumeId :: string
  NodeId :: string
  VolumeCapability :: "VolumeCapability option"

record ControllerPublishVolumeResponse =
  PublishContext :: "string \<rightharpoonup> string"

record ControllerUnpublishVolumeRequest =
  VolumeId :: string
  NodeId :: string

datatype ControllerUnpublishVolumeResponse = ControllerUnpublishVolumeResponse

record ValidateVolumeCapabilitiesRequest =
  VolumeId :: string
  VolumeCapabilities :: "VolumeCapability list"

record ValidateVolumeCapabilitiesResponse_Confirmed =
  VolumeCapabilities :: "VolumeCapability list"

record ValidateVolumeCapabilitiesResponse =
  Confirmed :: "ValidateVolumeCapabilitiesResponse_Confirmed option"

record ControllerExpandVolumeRequest =
  VolumeId :: string
  CapacityRange :: "CapacityRange option"

record ControllerExpandVolumeResponse =
  CapacityBytes :: int64
  NodeExpansionRequired :: bool

subsection \<open>Package util and the constants of the driver\<close>

text \<open>
  Modelled from the spec: the allocation granularity of the provider. The spec
  rounds 2,000,000,000 bytes up to 2,147,483,648 and has the store report sizes in
  GiB, so the granularity is one GiB.
\<close>

definition GiB :: int where
  "GiB = 1024 * 1024 * 1024"

text \<open>
  Modelled from the spec: \<^verbatim>\<open>util.RoundUpBytes\<close>, which is not in these sources. The
  Size Normalizer rounds the required bytes up to the smallest multiple of the
  allocation granularity that is not below them. The result is an \<^verbatim>\<open>int64\<close>: a
  multiple that does not fit wraps around.
\<close>

definition RoundUpBytes :: "int64 \<Rightarrow> int64" where
  "RoundUpBytes volumeSizeBytes = word_of_int (- ((- sint volumeSizeBytes) div GiB) * GiB)"

text \<open>
  Modelled from the spec: the rounded-up size of the Size Normalizer as a number,
  before it is stored in an \<^verbatim>\<open>int64\<close>: the smallest multiple of the allocation
  granularity that is not below the required bytes.
\<close>

definition roundedUpSize :: "int \<Rightarrow> int" where
  "roundedUpSize requiredBytes = - ((- requiredBytes) div GiB) * GiB"

text \<open>
  Modelled from the spec: \<^verbatim>\<open>util.GiBToBytes\<close>, which is not in these sources: the
  size in bytes of a size in GiB, as an \<^verbatim>\<open>int64\<close>.
\<close>

definition GiBToBytes :: "int64 \<Rightarrow> int64" where
  "GiBToBytes volumeSizeGiB = volumeSizeGiB * word_of_int GiB"

text \<open>
  Modelled from the spec: \<^verbatim>\<open>VolumeTypeKey\<close>, declared elsewhere in package driver:
  the one recognised parameter key, \<^verbatim>\<open>type\<close>.
\<close>

definition VolumeTypeKey :: string where
  "VolumeTypeKey = ''type''"

text \<open>
  \<^verbatim>\<open>strings.ToLower\<close> of Go's library, on ASCII letters. On a key with a byte outside
  ASCII the library works on runes; no rune other than an ASCII letter has one of
  the letters of \<^verbatim>\<open>type\<close> as its lower case, so such a key differs from
  \<open>VolumeTypeKey\<close> there as it does here.
\<close>

definition ToLower_char :: "char \<Rightarrow> char" where
  "ToLower_char c =
     (if (65::nat) \<le> of_char c \<and> of_char c \<le> (90::nat) then char_of (of_char c + (32::nat)) else c)"

definition ToLower :: "string \<Rightarrow> string" where
  "ToLower s = map ToLower_char s"

text \<open>
  Two constants that these sources use and do not declare are parameters of the
  operations that read them: \<^verbatim>\<open>cloud.DefaultVolumeSize\<close> (an \<^verbatim>\<open>int64\<close> number of bytes)
  and \<^verbatim>\<open>WWNKey\<close> (the key of the publish context).
\<close>

subsection \<open>Supported capabilities\<close>

definition volumeCaps :: "VolumeCapability_AccessMode list" where
  "volumeCaps = [\<lparr>Mode = VolumeCapability_AccessMode_SINGLE_NODE_WRITER\<rparr>]"

text \<open>The closure \<^verbatim>\<open>hasSupport\<close>: a loop over \<open>volumeCaps\<close> that returns at the first match.\<close>

fun hasSupport_loop :: "VolumeCapability_AccessMode list \<Rightarrow> VolumeCapability \<Rightarrow> bool" where
  "hasSupport_loop [] cap = False"
| "hasSupport_loop (c # cs) cap =
     (if Mode c = GetMode (AccessMode cap) then True else hasSupport_loop cs cap)"

definition hasSupport :: "VolumeCapability \<Rightarrow> bool" where
  "hasSupport cap = hasSupport_loop volumeCaps cap"

text \<open>The loop over the requested capabilities, with its flag \<^verbatim>\<open>foundAll\<close>.\<close>

fun isValidVolumeCapabilities_loop :: "VolumeCapability list \<Rightarrow> bool \<Rightarrow> bool" where
  "isValidVolumeCapabilities_loop [] foundAll = foundAll"
| "isValidVolumeCapabilities_loop (c # cs) foundAll =
     isValidVolumeCapabilities_loop cs (if \<not> hasSupport c then False else foundAll)"

definition isValidVolumeCapabilities :: "VolumeCapability list \<Rightarrow> bool" where
  "isValidVolumeCapabilities volCaps = isValidVolumeCapabilities_loop volCaps True"

subsection \<open>CreateVolume\<close>

definition getVolSizeBytes :: "int64 \<Rightarrow> CreateVolumeRequest \<Rightarrow> status + int64" where
  "getVolSizeBytes DefaultVolumeSize req =
     (case CreateVolumeRequest.CapacityRange req of
        None \<Rightarrow> Inr DefaultVolumeSize
      | Some capRange \<Rightarrow>
          (let volSizeBytes = RoundUpBytes (RequiredBytes capRange);
               maxVolSize = LimitBytes capRange
           in if 0 <s maxVolSize \<and> maxVolSize <s volSizeBytes
              then Inl (Status InvalidArgument)
              else Inr volSizeBytes))"

text \<open>
  The loop over the parameters: an entry whose lower-cased key is the volume type
  key sets \<^verbatim>\<open>volumeType\<close>, any other entry ends the operation.
\<close>

fun CreateVolume_parameters :: "(string \<times> string) list \<Rightarrow> string \<Rightarrow> status + string" where
  "CreateVolume_parameters [] volumeType = Inr volumeType"
| "CreateVolume_parameters ((key, val) # ps) volumeType =
     (if ToLower key = VolumeTypeKey then CreateVolume_parameters ps val
      else Inl (Status InvalidArgument))"

definition newCreateVolumeResponse :: "Disk \<Rightarrow> CreateVolumeResponse" where
  "newCreateVolumeResponse disk =
     \<lparr>Volume = \<lparr>Volume.VolumeId = VolumeID disk,
                Volume.CapacityBytes = GiBToBytes (CapacityGiB disk),
                VolumeContext = Map.empty,
                ContentSource = None\<rparr>\<rparr>"

definition CreateVolume ::
  "int64 \<Rightarrow> 's controllerService \<Rightarrow> CreateVolumeRequest \<Rightarrow> 's world
     \<Rightarrow> (status + CreateVolumeResponse) \<times> 's world" where
  "CreateVolume DefaultVolumeSize d req w =
     (let volName = Name req in
      if length volName = 0 then (Inl (Status InvalidArgument), w)
      else case getVolSizeBytes DefaultVolumeSize req of
        Inl err \<Rightarrow> (Inl err, w)
      | Inr volSizeBytes \<Rightarrow>
          (let volCaps = CreateVolumeRequest.VolumeCapabilities req in
           if length volCaps = 0 then (Inl (Status InvalidArgument), w)
           else if \<not> isValidVolumeCapabilities volCaps then (Inl (Status InvalidArgument), w)
           else case CreateVolume_parameters (Parameters req) [] of
             Inl err \<Rightarrow> (Inl err, w)
           | Inr volumeType \<Rightarrow>
               (let opts = \<lparr>Shareable = False,
                            DiskOptions.CapacityBytes = volSizeBytes,
                            VolumeType = volumeType\<rparr>
                in case cloud_CreateDisk d volName opts w of
                  (Inl err, w') \<Rightarrow>
                    (let errCode = Internal;
                         errCode = (if err = ErrNotFound then NotFound else errCode);
                         errCode = (if err = ErrIdempotentParameterMismatch then AlreadyExists
                                    else errCode)
                     in (Inl (Status errCode), w'))
                | (Inr disk, w') \<Rightarrow> (Inr (newCreateVolumeResponse disk), w'))))"

subsection \<open>DeleteVolume\<close>

definition DeleteVolume ::
  "'s controllerService \<Rightarrow> DeleteVolumeRequest \<Rightarrow> 's world
     \<Rightarrow> (status + DeleteVolumeResponse) \<times> 's world" where
  "DeleteVolume d req w =
     (let volumeID = DeleteVolumeRequest.VolumeId req in
      if length volumeID = 0 then (Inl (Status InvalidArgument), w)
      else case cloud_GetDiskByID d volumeID w of
        (r, w1) \<Rightarrow>
          if r = Inl ErrNotFound then (Inr DeleteVolumeResponse, w1)
          else case cloud_DeleteDisk d volumeID w1 of
            (Some err, w2) \<Rightarrow> (Inl (Status Internal), w2)
          | (None, w2) \<Rightarrow> (Inr DeleteVolumeResponse, w2))"

subsection \<open>ControllerPublishVolume and ControllerUnpublishVolume\<close>

definition ControllerPublishVolume ::
  "string \<Rightarrow> 's controllerService \<Rightarrow> ControllerPublishVolumeRequest \<Rightarrow> 's world
     \<Rightarrow> (status + ControllerPublishVolumeResponse) \<times> 's world" where
  "ControllerPublishVolume WWNKey d req w =
     (let volumeID = ControllerPublishVolumeRequest.VolumeId req in
      if length volumeID = 0 then (Inl (Status InvalidArgument), w)
      else
        let nodeID = ControllerPublishVolumeRequest.NodeId req in
        if length nodeID = 0 then (Inl (Status InvalidArgument), w)
        else case VolumeCapability req of
          None \<Rightarrow> (Inl (Status InvalidArgument), w)
        | Some volCap \<Rightarrow>
            (let caps = [volCap] in
             if \<not> isValidVolumeCapabilities caps then (Inl (Status InvalidArgument), w)
             else case cloud_GetPVMInstanceByID d nodeID w of
               (Some err, w1) \<Rightarrow> (Inl (Status NotFound), w1)
             | (None, w1) \<Rightarrow>
                 (case cloud_GetDiskByID d volumeID w1 of
                    (Inl err, w2) \<Rightarrow>
                      if err = ErrNotFound then (Inl (Status NotFound), w2)
                      else (Inl (Status Internal), w2)
                  | (Inr disk, w2) \<Rightarrow>
                      (let pvInfo = [WWNKey \<mapsto> WWN disk] in
                       case cloud_IsAttached d volumeID nodeID w2 of
                         ((attached, err), w3) \<Rightarrow>
                           if attached then (Inr \<lparr>PublishContext = pvInfo\<rparr>, w3)
                           else case cloud_AttachDisk d volumeID nodeID w3 of
                             (Some err, w4) \<Rightarrow>
                               if err = ErrAlreadyExists then (Inl (Status AlreadyExists), w4)
                               else (Inl (Status Internal), w4)
                           | (None, w4) \<Rightarrow> (Inr \<lparr>PublishContext = pvInfo\<rparr>, w4)))))"

definition ControllerUnpublishVolume ::
  "'s controllerService \<Rightarrow> ControllerUnpublishVolumeRequest \<Rightarrow> 's world
     \<Rightarrow> (status + ControllerUnpublishVolumeResponse) \<times> 's world" where
  "ControllerUnpublishVolume d req w =
     (let volumeID = ControllerUnpublishVolumeRequest.VolumeId req in
      if length volumeID = 0 then (Inl (Status InvalidArgument), w)
      else
        let nodeID = ControllerUnpublishVolumeRequest.NodeId req in
        if length nodeID = 0 then (Inl (Status InvalidArgument), w)
        else case cloud_GetDiskByID d volumeID w of
          (r, w1) \<Rightarrow>
            if r = Inl ErrNotFound then (Inr ControllerUnpublishVolumeResponse, w1)
            else case cloud_IsAttached d volumeID nodeID w1 of
              ((attached, err), w2) \<Rightarrow>
                if \<not> attached then (Inr ControllerUnpublishVolumeResponse, w2)
                else case cloud_DetachDisk d volumeID nodeID w2 of
                  (Some err, w3) \<Rightarrow> (Inl (Status Internal), w3)
                | (None, w3) \<Rightarrow> (Inr ControllerUnpublishVolumeResponse, w3))"

subsection \<open>ValidateVolumeCapabilities and ControllerExpandVolume\<close>

definition ValidateVolumeCapabilities ::
  "'s controllerService \<Rightarrow> ValidateVolumeCapabilitiesRequest \<Rightarrow> 's world
     \<Rightarrow> (status + ValidateVolumeCapabilitiesResponse) \<times> 's world" where
  "ValidateVolumeCapabilities d req w =
     (let volumeID = ValidateVolumeCapabilitiesRequest.VolumeId req in
      if length volumeID = 0 then (Inl (Status InvalidArgument), w)
      else
        let volCaps = ValidateVolumeCapabilitiesRequest.VolumeCapabilities req in
        if length volCaps = 0 then (Inl (Status InvalidArgument), w)
        else case cloud_GetDiskByID d volumeID w of
          (Inl err, w1) \<Rightarrow>
            if err = ErrNotFound then (Inl (Status NotFound), w1)
            else (Inl (Status Internal), w1)
        | (Inr disk, w1) \<Rightarrow>
            (let confirmed =
                   (if isValidVolumeCapabilities volCaps
                    then Some \<lparr>ValidateVolumeCapabilitiesResponse_Confirmed.VolumeCapabilities = volCaps\<rparr>
                    else None)
             in (Inr \<lparr>Confirmed = confirmed\<rparr>, w1)))"

definition ControllerExpandVolume ::
  "'s controllerService \<Rightarrow> ControllerExpandVolumeRequest \<Rightarrow> 's world
     \<Rightarrow> (status + ControllerExpandVolumeResponse) \<times> 's world" where
  "ControllerExpandVolume d req w =
     (let volumeID = ControllerExpandVolumeRequest.VolumeId req in
      if length volumeID = 0 then (Inl (Status InvalidArgument), w)
      else case ControllerExpandVolumeRequest.CapacityRange req of
        None \<Rightarrow> (Inl (Status InvalidArgument), w)
      | Some capRange \<Rightarrow>
          (let newSize = RoundUpBytes (RequiredBytes capRange);
               maxVolSize = LimitBytes capRange
           in if 0 <s maxVolSize \<and> maxVolSize <s newSize then (Inl (Status InvalidArgument), w)
              else case cloud_ResizeDisk d volumeID newSize w of
                (Inl err, w') \<Rightarrow> (Inl (Status Internal), w')
              | (Inr actualSizeGiB, w') \<Rightarrow>
                  (Inr \<lparr>ControllerExpandVolumeResponse.CapacityBytes = GiBToBytes actualSizeGiB,
                        NodeExpansionRequired = True\<rparr>, w')))"

subsection \<open>A scripted store and sample requests\<close>

text \<open>
  A store without state whose operations answer with fixed values: \<open>disk\<close> to
  create and get-by-id, \<open>att\<close> to is-attached, \<open>err\<close> to delete, attach and detach,
  \<open>sz\<close> to resize; the instance query succeeds. The instances of the theorems
  below are evaluated on it.
\<close>

definition fixedCloud ::
  "(cloud_error + Disk) \<Rightarrow> (bool \<times> cloud_error option) \<Rightarrow> cloud_error option
     \<Rightarrow> (cloud_error + int64) \<Rightarrow> unit controllerService" where
  "fixedCloud disk att err sz =
     \<lparr>cloud = \<lparr>CreateDisk = (\<lambda>volName opts s. (disk, s)),
               DeleteDisk = (\<lambda>volumeID s. (err, s)),
               AttachDisk = (\<lambda>volumeID nodeID s. (err, s)),
               DetachDisk = (\<lambda>volumeID nodeID s. (err, s)),
               ResizeDisk = (\<lambda>volumeID newSize s. (sz, s)),
               GetDiskByID = (\<lambda>volumeID s. (disk, s)),
               GetPVMInstanceByID = (\<lambda>nodeID s. (None, s)),
               IsAttached = (\<lambda>volumeID nodeID s. (att, s))\<rparr>\<rparr>"

definition world0 :: "unit world" where
  "world0 = \<lparr>remote = (), calls = []\<rparr>"

definition disk0 :: Disk where
  "disk0 = \<lparr>VolumeID = ''v-123'', CapacityGiB = 2, WWN = ''600507681081001d48000000000004b2''\<rparr>"

definition singleNodeWriterCap :: VolumeCapability where
  "singleNodeWriterCap =
     \<lparr>AccessMode = Some \<lparr>Mode = VolumeCapability_AccessMode_SINGLE_NODE_WRITER\<rparr>\<rparr>"

definition expandRequest :: "int64 \<Rightarrow> int64 \<Rightarrow> ControllerExpandVolumeRequest" where
  "expandRequest required limit =
     \<lparr>ControllerExpandVolumeRequest.VolumeId = ''v-123'',
      ControllerExpandVolumeRequest.CapacityRange =
        Some \<lparr>RequiredBytes = required, LimitBytes = limit\<rparr>\<rparr>"

definition validateRequest :: "VolumeCapability list \<Rightarrow> ValidateVolumeCapabilitiesRequest" where
  "validateRequest volCaps =
     \<lparr>ValidateVolumeCapabilitiesRequest.VolumeId = ''v-123'',
      ValidateVolumeCapabilitiesRequest.VolumeCapabilities = volCaps\<rparr>"

definition createRequest :: "CapacityRange option \<Rightarrow> (string \<times> string) list \<Rightarrow> CreateVolumeRequest" where
  "createRequest capRange params =
     \<lparr>Name = ''vol1'',
      CreateVolumeRequest.CapacityRange = capRange,
      CreateVolumeRequest.VolumeCapabilities = [singleNodeWriterCap],
      Parameters = params\<rparr>"

definition deleteRequest :: DeleteVolumeRequest where
  "deleteRequest = \<lparr>DeleteVolumeRequest.VolumeId = ''v-123''\<rparr>"

definition publishRequest :: ControllerPublishVolumeRequest where
  "publishRequest =
     \<lparr>ControllerPublishVolumeRequest.VolumeId = ''v-123'',
      ControllerPublishVolumeRequest.NodeId = ''node-A'',
      VolumeCapability = Some singleNodeWriterCap\<rparr>"

definition unpublishRequest :: ControllerUnpublishVolumeRequest where
  "unpublishRequest =
     \<lparr>ControllerUnpublishVolumeRequest.VolumeId = ''v-123'',
      ControllerUnpublishVolumeRequest.NodeId = ''node-A''\<rparr>"

section \<open>Properties\<close>

subsection \<open>The capability validator\<close>

lemma hasSupport_iff:
  "hasSupport cap \<longleftrightarrow> GetMode (AccessMode cap) = VolumeCapability_AccessMode_SINGLE_NODE_WRITER"
  by (auto simp: hasSupport_def volumeCaps_def)

lemma isValidVolumeCapabilities_loop_iff:
  "isValidVolumeCapabilities_loop cs foundAll \<longleftrightarrow> foundAll \<and> (\<forall>c\<in>set cs. hasSupport c)"
  by (induction cs arbitrary: foundAll) auto

lemma isValidVolumeCapabilities_iff:
  "isValidVolumeCapabilities volCaps \<longleftrightarrow>
     (\<forall>c\<in>set volCaps. GetMode (AccessMode c) = VolumeCapability_AccessMode_SINGLE_NODE_WRITER)"
  by (simp add: isValidVolumeCapabilities_def isValidVolumeCapabilities_loop_iff hasSupport_iff)

lemma isValidVolumeCapabilities_singleNodeWriterCap:
  "isValidVolumeCapabilities [singleNodeWriterCap]"
  by (simp add: isValidVolumeCapabilities_iff singleNodeWriterCap_def GetMode_def)

text \<open>
  C8. A ValidateVolumeCapabilities call with a volume ID, at least one capability
  and a volume that the store finds succeeds after that one query; its
  confirmation holds the requested capabilities, unchanged and so not empty, if
  every one of them has the access mode single-node-writer, and is absent
  otherwise.
\<close>

theorem ValidateVolumeCapabilities_confirmed_iff:
  assumes "ValidateVolumeCapabilitiesRequest.VolumeId req \<noteq> []"
    and "ValidateVolumeCapabilitiesRequest.VolumeCapabilities req \<noteq> []"
    and "GetDiskByID (cloud d) (ValidateVolumeCapabilitiesRequest.VolumeId req) (remote w)
           = (Inr disk, s')"
  shows "ValidateVolumeCapabilities d req w =
           (Inr \<lparr>Confirmed =
                   (if \<forall>c\<in>set (ValidateVolumeCapabilitiesRequest.VolumeCapabilities req).
                         GetMode (AccessMode c) = VolumeCapability_AccessMode_SINGLE_NODE_WRITER
                    then Some \<lparr>ValidateVolumeCapabilitiesResponse_Confirmed.VolumeCapabilities =
                                 ValidateVolumeCapabilitiesRequest.VolumeCapabilities req\<rparr>
                    else None)\<rparr>,
            \<lparr>remote = s',
             calls = calls w @ [CallGetDiskByID (ValidateVolumeCapabilitiesRequest.VolumeId req)]\<rparr>)"
  using assms
  by (simp add: ValidateVolumeCapabilities_def cloud_GetDiskByID_def issue_def
      isValidVolumeCapabilities_iff Let_def)

theorem ValidateVolumeCapabilities_confirmed_iff_witness:
  "ValidateVolumeCapabilities (fixedCloud (Inr disk0) (False, None) None (Inr 2))
       (validateRequest [singleNodeWriterCap]) world0 =
     (Inr \<lparr>Confirmed = Some \<lparr>ValidateVolumeCapabilitiesResponse_Confirmed.VolumeCapabilities =
                                [singleNodeWriterCap]\<rparr>\<rparr>,
      \<lparr>remote = (), calls = [CallGetDiskByID ''v-123'']\<rparr>)
   \<and> ValidateVolumeCapabilities (fixedCloud (Inr disk0) (False, None) None (Inr 2))
       (validateRequest [singleNodeWriterCap, \<lparr>AccessMode = None\<rparr>]) world0 =
     (Inr \<lparr>Confirmed = None\<rparr>, \<lparr>remote = (), calls = [CallGetDiskByID ''v-123'']\<rparr>)"
  using ValidateVolumeCapabilities_confirmed_iff [of "validateRequest [singleNodeWriterCap]"
      "fixedCloud (Inr disk0) (False, None) None (Inr 2)" world0 disk0 "()"]
    ValidateVolumeCapabilities_confirmed_iff
      [of "validateRequest [singleNodeWriterCap, \<lparr>AccessMode = None\<rparr>]"
      "fixedCloud (Inr disk0) (False, None) None (Inr 2)" world0 disk0 "()"]
  by (simp add: validateRequest_def world0_def fixedCloud_def singleNodeWriterCap_def GetMode_def
      VolumeCapability_AccessMode_SINGLE_NODE_WRITER_def VolumeCapability_AccessMode_UNKNOWN_def)

subsection \<open>The size normalizer\<close>

lemma RoundUpBytes_2000000000: "RoundUpBytes 2000000000 = 2147483648"
  by (simp add: RoundUpBytes_def GiB_def)

lemma sint_GiBToBytes:
  assumes "- (2 ^ 63) \<le> sint g * GiB" and "sint g * GiB < 2 ^ 63"
  shows "sint (GiBToBytes g) = sint g * GiB"
proof -
  have "sint (word_of_int GiB :: int64) = GiB"
    by (simp add: GiB_def)
  then have "sint (GiBToBytes g) = signed_take_bit 63 (sint g * GiB)"
    by (simp add: GiBToBytes_def sint_word_ariths)
  also have "\<dots> = sint g * GiB"
    using assms by (simp add: signed_take_bit_int_eq_self)
  finally show ?thesis .
qed

lemma sint_int64_lower: "- (2 ^ 63) \<le> sint (x :: int64)"
  using sint_ge [of x] by simp

text \<open>
  \<open>RoundUpBytes\<close> is the rounding the spec describes: while the result fits an
  \<^verbatim>\<open>int64\<close>, it is the multiple of the granularity that is not below the
  required bytes and less than one granularity above them, that is the smallest
  such multiple.
\<close>

lemma round_up_int:
  fixes x :: int
  shows "x \<le> - ((- x) div GiB) * GiB" and "- ((- x) div GiB) * GiB < x + GiB"
    and "(- ((- x) div GiB) * GiB) mod GiB = 0"
proof -
  have pos: "0 < GiB" by (simp add: GiB_def)
  have eq: "((- x) div GiB) * GiB = - x - (- x) mod GiB"
    by (simp add: algebra_simps minus_mod_eq_div_mult [symmetric])
  have "0 \<le> (- x) mod GiB" and "(- x) mod GiB < GiB"
    using pos by simp_all
  with eq show "x \<le> - ((- x) div GiB) * GiB" and "- ((- x) div GiB) * GiB < x + GiB"
    by simp_all
  show "(- ((- x) div GiB) * GiB) mod GiB = 0"
    by simp
qed

lemma RoundUpBytes_least_multiple:
  assumes "sint volumeSizeBytes \<le> 2 ^ 63 - GiB"
  shows "sint volumeSizeBytes \<le> sint (RoundUpBytes volumeSizeBytes)"
    and "sint (RoundUpBytes volumeSizeBytes) < sint volumeSizeBytes + GiB"
    and "sint (RoundUpBytes volumeSizeBytes) mod GiB = 0"
proof -
  let ?c = "- ((- sint volumeSizeBytes) div GiB) * GiB"
  have "- (2 ^ 63) \<le> sint volumeSizeBytes"
    by (rule sint_int64_lower)
  with round_up_int(1) [of "sint volumeSizeBytes"] have lo: "- (2 ^ 63) \<le> ?c"
    by linarith
  from assms round_up_int(2) [of "sint volumeSizeBytes"] have hi: "?c < 2 ^ 63"
    by linarith
  have "sint (RoundUpBytes volumeSizeBytes) = signed_take_bit 63 ?c"
    unfolding RoundUpBytes_def by (subst sint_sbintrunc') simp
  also have "\<dots> = ?c"
    using lo hi by (simp add: signed_take_bit_int_eq_self)
  finally have eq: "sint (RoundUpBytes volumeSizeBytes) = ?c" .
  show "sint volumeSizeBytes \<le> sint (RoundUpBytes volumeSizeBytes)"
    and "sint (RoundUpBytes volumeSizeBytes) < sint volumeSizeBytes + GiB"
    and "sint (RoundUpBytes volumeSizeBytes) mod GiB = 0"
    unfolding eq by (rule round_up_int)+
qed

subsection \<open>ControllerExpandVolume\<close>

text \<open>
  C1, as the code has it. A ControllerExpandVolume call that passes validation
  and whose resize succeeds reports the size the store returned, converted from
  GiB to bytes, and asks for node expansion; the controller does not compare that
  size with the one it requested. The reported capacity is at least the
  normalized requested size when the store returned a size that, in bytes, is at
  least the requested one and fits an \<^verbatim>\<open>int64\<close>.
\<close>

theorem ControllerExpandVolume_capacity:
  assumes "ControllerExpandVolumeRequest.VolumeId req \<noteq> []"
    and "ControllerExpandVolumeRequest.CapacityRange req = Some capRange"
    and "\<not> (0 <s LimitBytes capRange \<and> LimitBytes capRange <s RoundUpBytes (RequiredBytes capRange))"
    and "ResizeDisk (cloud d) (ControllerExpandVolumeRequest.VolumeId req)
           (RoundUpBytes (RequiredBytes capRange)) (remote w) = (Inr actualSizeGiB, s')"
  shows "ControllerExpandVolume d req w =
           (Inr \<lparr>ControllerExpandVolumeResponse.CapacityBytes = GiBToBytes actualSizeGiB,
                 NodeExpansionRequired = True\<rparr>,
            \<lparr>remote = s',
             calls = calls w @ [CallResizeDisk (ControllerExpandVolumeRequest.VolumeId req)
                                  (RoundUpBytes (RequiredBytes capRange))]\<rparr>)
         \<and> (sint (RoundUpBytes (RequiredBytes capRange)) \<le> sint actualSizeGiB * GiB
              \<and> sint actualSizeGiB * GiB < 2 ^ 63
            \<longrightarrow> RoundUpBytes (RequiredBytes capRange) \<le>s GiBToBytes actualSizeGiB)"
proof (intro conjI impI)
  show "ControllerExpandVolume d req w =
           (Inr \<lparr>ControllerExpandVolumeResponse.CapacityBytes = GiBToBytes actualSizeGiB,
                 NodeExpansionRequired = True\<rparr>,
            \<lparr>remote = s',
             calls = calls w @ [CallResizeDisk (ControllerExpandVolumeRequest.VolumeId req)
                                  (RoundUpBytes (RequiredBytes capRange))]\<rparr>)"
    using assms
    by (simp add: ControllerExpandVolume_def cloud_ResizeDisk_def issue_def Let_def)
next
  assume fits: "sint (RoundUpBytes (RequiredBytes capRange)) \<le> sint actualSizeGiB * GiB
      \<and> sint actualSizeGiB * GiB < 2 ^ 63"
  have "- (2 ^ 63) \<le> sint (RoundUpBytes (RequiredBytes capRange))"
    by (rule sint_int64_lower)
  with fits have "sint (GiBToBytes actualSizeGiB) = sint actualSizeGiB * GiB"
    by (intro sint_GiBToBytes) auto
  with fits show "RoundUpBytes (RequiredBytes capRange) \<le>s GiBToBytes actualSizeGiB"
    by (simp add: word_sle_eq)
qed

theorem ControllerExpandVolume_capacity_witness:
  "ControllerExpandVolume (fixedCloud (Inr disk0) (False, None) None (Inr 2))
       (expandRequest 2000000000 0) world0 =
     (Inr \<lparr>ControllerExpandVolumeResponse.CapacityBytes = 2147483648, NodeExpansionRequired = True\<rparr>,
      \<lparr>remote = (), calls = [CallResizeDisk ''v-123'' 2147483648]\<rparr>)
   \<and> (2147483648 :: int64) \<le>s 2147483648"
  using ControllerExpandVolume_capacity [of "expandRequest 2000000000 0"
      "\<lparr>RequiredBytes = 2000000000, LimitBytes = 0\<rparr>"
      "fixedCloud (Inr disk0) (False, None) None (Inr 2)" world0 2 "()"]
  by (simp add: expandRequest_def world0_def fixedCloud_def RoundUpBytes_2000000000
      GiBToBytes_def GiB_def)

text \<open>
  The claim as the spec states it fails: asked for 2,000,000,000 bytes, normalized
  to 2 GiB, a store whose resize answers 1 GiB makes the call succeed with a
  capacity of 1 GiB.
\<close>

theorem ControllerExpandVolume_capacity_counterexample:
  "ControllerExpandVolume (fixedCloud (Inr disk0) (False, None) None (Inr 1))
       (expandRequest 2000000000 0) world0 =
     (Inr \<lparr>ControllerExpandVolumeResponse.CapacityBytes = 1073741824, NodeExpansionRequired = True\<rparr>,
      \<lparr>remote = (), calls = [CallResizeDisk ''v-123'' 2147483648]\<rparr>)
   \<and> RoundUpBytes 2000000000 = 2147483648
   \<and> \<not> (2147483648 :: int64) \<le>s 1073741824"
  by (simp add: ControllerExpandVolume_def cloud_ResizeDisk_def issue_def Let_def
      expandRequest_def world0_def fixedCloud_def RoundUpBytes_2000000000 GiBToBytes_def GiB_def)

lemma RoundUpBytes_0: "RoundUpBytes 0 = 0"
  by (simp add: RoundUpBytes_def)

lemma ToLower_Type: "ToLower ''Type'' = VolumeTypeKey"
  by code_simp

subsection \<open>CreateVolume\<close>

text \<open>
  What CreateVolume does once its local checks have passed: one create-disk call,
  whose outcome decides the result.
\<close>

lemma CreateVolume_validated:
  assumes "Name req \<noteq> []"
    and "getVolSizeBytes DefaultVolumeSize req = Inr volSizeBytes"
    and "CreateVolumeRequest.VolumeCapabilities req \<noteq> []"
    and "isValidVolumeCapabilities (CreateVolumeRequest.VolumeCapabilities req)"
    and "CreateVolume_parameters (Parameters req) [] = Inr volumeType"
    and "CreateDisk (cloud d) (Name req)
           \<lparr>Shareable = False, DiskOptions.CapacityBytes = volSizeBytes, VolumeType = volumeType\<rparr>
           (remote w) = (r, s')"
  shows "CreateVolume DefaultVolumeSize d req w =
           (case r of
              Inr disk \<Rightarrow> Inr (newCreateVolumeResponse disk)
            | Inl err \<Rightarrow>
                Inl (Status (case err of
                               ErrNotFound \<Rightarrow> NotFound
                             | ErrIdempotentParameterMismatch \<Rightarrow> AlreadyExists
                             | _ \<Rightarrow> Internal)),
            \<lparr>remote = s',
             calls = calls w @ [CallCreateDisk (Name req)
               \<lparr>Shareable = False, DiskOptions.CapacityBytes = volSizeBytes,
                VolumeType = volumeType\<rparr>]\<rparr>)"
  using assms
  by (simp add: CreateVolume_def cloud_CreateDisk_def issue_def Let_def
      split: sum.splits cloud_error.splits)

lemma getVolSizeBytes_Inr:
  assumes "getVolSizeBytes DefaultVolumeSize req = Inr volSizeBytes"
  shows "volSizeBytes =
           (case CreateVolumeRequest.CapacityRange req of
              None \<Rightarrow> DefaultVolumeSize
            | Some capRange \<Rightarrow> RoundUpBytes (RequiredBytes capRange))"
  using assms
  by (simp add: getVolSizeBytes_def Let_def split: option.splits if_splits)

text \<open>
  C2, as the code has it. A CreateVolume request that passes the local checks
  issues one create-disk call. The size it passes is the default volume size,
  as it is, when the request has no capacity range; when it has one, the size is
  the normalized required bytes, and the normalized size of zero required bytes
  is zero, not the default.
\<close>

theorem CreateVolume_size_passed:
  assumes "Name req \<noteq> []"
    and "getVolSizeBytes DefaultVolumeSize req = Inr volSizeBytes"
    and "CreateVolumeRequest.VolumeCapabilities req \<noteq> []"
    and "isValidVolumeCapabilities (CreateVolumeRequest.VolumeCapabilities req)"
    and "CreateVolume_parameters (Parameters req) [] = Inr volumeType"
  shows "calls (snd (CreateVolume DefaultVolumeSize d req w)) =
           calls w @ [CallCreateDisk (Name req)
             \<lparr>Shareable = False, DiskOptions.CapacityBytes = volSizeBytes, VolumeType = volumeType\<rparr>]
         \<and> volSizeBytes =
             (case CreateVolumeRequest.CapacityRange req of
                None \<Rightarrow> DefaultVolumeSize
              | Some capRange \<Rightarrow> RoundUpBytes (RequiredBytes capRange))
         \<and> RoundUpBytes 0 = 0"
proof -
  obtain r s' where "CreateDisk (cloud d) (Name req)
           \<lparr>Shareable = False, DiskOptions.CapacityBytes = volSizeBytes, VolumeType = volumeType\<rparr>
           (remote w) = (r, s')"
    by (cases "CreateDisk (cloud d) (Name req)
           \<lparr>Shareable = False, DiskOptions.CapacityBytes = volSizeBytes, VolumeType = volumeType\<rparr>
           (remote w)")
  with assms show ?thesis
    by (simp add: CreateVolume_validated getVolSizeBytes_Inr RoundUpBytes_0)
qed

theorem CreateVolume_size_passed_witness:
  "calls (snd (CreateVolume 10737418240 (fixedCloud (Inr disk0) (False, None) None (Inr 2))
       (createRequest None [(''Type'', ''tier1'')]) world0)) =
     [CallCreateDisk ''vol1''
        \<lparr>Shareable = False, DiskOptions.CapacityBytes = 10737418240, VolumeType = ''tier1''\<rparr>]"
  using CreateVolume_size_passed [of "createRequest None [(''Type'', ''tier1'')]" 10737418240
      10737418240 "''tier1''" "fixedCloud (Inr disk0) (False, None) None (Inr 2)" world0]
  by (simp add: createRequest_def world0_def getVolSizeBytes_def ToLower_Type
      isValidVolumeCapabilities_singleNodeWriterCap)

text \<open>
  The claim as the spec states it fails on a capacity range whose required bytes
  are zero: with a default of 10 GiB, the size passed to create-disk is 0.
\<close>

theorem CreateVolume_size_passed_counterexample:
  "CreateVolume 10737418240 (fixedCloud (Inr disk0) (False, None) None (Inr 2))
       (createRequest (Some \<lparr>RequiredBytes = 0, LimitBytes = 0\<rparr>) []) world0 =
     (Inr (newCreateVolumeResponse disk0),
      \<lparr>remote = (),
       calls = [CallCreateDisk ''vol1''
                  \<lparr>Shareable = False, DiskOptions.CapacityBytes = 0, VolumeType = ''''\<rparr>]\<rparr>)
   \<and> (0 :: int64) \<noteq> 10737418240
   \<and> (0 :: int64) \<noteq> RoundUpBytes 10737418240"
  by (simp add: CreateVolume_def cloud_CreateDisk_def issue_def Let_def getVolSizeBytes_def
      createRequest_def world0_def fixedCloud_def RoundUpBytes_0
      isValidVolumeCapabilities_singleNodeWriterCap)
    (simp add: RoundUpBytes_def GiB_def)

text \<open>
  C3. For a CreateVolume request that passes the local checks, the result is
  decided by the create-disk call alone: its disk, as a volume descriptor, when
  it succeeds; \<open>AlreadyExists\<close> on the parameter-mismatch error, \<open>NotFound\<close> on the
  not-found error, \<open>Internal\<close> on any other error.
\<close>

theorem CreateVolume_classification:
  assumes "Name req \<noteq> []"
    and "getVolSizeBytes DefaultVolumeSize req = Inr volSizeBytes"
    and "CreateVolumeRequest.VolumeCapabilities req \<noteq> []"
    and "isValidVolumeCapabilities (CreateVolumeRequest.VolumeCapabilities req)"
    and "CreateVolume_parameters (Parameters req) [] = Inr volumeType"
    and "CreateDisk (cloud d) (Name req)
           \<lparr>Shareable = False, DiskOptions.CapacityBytes = volSizeBytes, VolumeType = volumeType\<rparr>
           (remote w) = (r, s')"
  shows "fst (CreateVolume DefaultVolumeSize d req w) =
           (case r of
              Inr disk \<Rightarrow>
                Inr \<lparr>Volume = \<lparr>Volume.VolumeId = VolumeID disk,
                                Volume.CapacityBytes = GiBToBytes (CapacityGiB disk),
                                VolumeContext = Map.empty,
                                ContentSource = None\<rparr>\<rparr>
            | Inl ErrIdempotentParameterMismatch \<Rightarrow> Inl (Status AlreadyExists)
            | Inl ErrNotFound \<Rightarrow> Inl (Status NotFound)
            | Inl _ \<Rightarrow> Inl (Status Internal))"
  using CreateVolume_validated [OF assms]
  by (simp add: newCreateVolumeResponse_def split: sum.splits cloud_error.splits)

theorem CreateVolume_classification_witness:
  "fst (CreateVolume 10737418240 (fixedCloud (Inl ErrIdempotentParameterMismatch) (False, None) None (Inr 2))
       (createRequest (Some \<lparr>RequiredBytes = 2000000000, LimitBytes = 0\<rparr>) [(''Type'', ''tier1'')])
       world0) = Inl (Status AlreadyExists)"
  using CreateVolume_classification
    [of "createRequest (Some \<lparr>RequiredBytes = 2000000000, LimitBytes = 0\<rparr>) [(''Type'', ''tier1'')]"
      10737418240 2147483648 "''tier1''"
      "fixedCloud (Inl ErrIdempotentParameterMismatch) (False, None) None (Inr 2)" world0
      "Inl ErrIdempotentParameterMismatch" "()"]
  by (simp add: createRequest_def world0_def fixedCloud_def getVolSizeBytes_def ToLower_Type
      isValidVolumeCapabilities_singleNodeWriterCap RoundUpBytes_2000000000)


subsection \<open>The capacity limit\<close>

text \<open>
  The guard of the code, on the \<^verbatim>\<open>int64\<close> that \<open>RoundUpBytes\<close> returns: a positive
  limit below that value ends both operations with \<open>InvalidArgument\<close> before any
  call to the store.
\<close>

lemma capacity_limit_guard:
  assumes "0 <s LimitBytes capRange"
    and "LimitBytes capRange <s RoundUpBytes (RequiredBytes capRange)"
  shows "(CreateVolumeRequest.CapacityRange creq = Some capRange
            \<longrightarrow> CreateVolume DefaultVolumeSize d creq w = (Inl (Status InvalidArgument), w))
         \<and> (ControllerExpandVolumeRequest.CapacityRange ereq = Some capRange
            \<longrightarrow> ControllerExpandVolume d ereq w = (Inl (Status InvalidArgument), w))"
  using assms
  by (simp add: CreateVolume_def getVolSizeBytes_def ControllerExpandVolume_def Let_def)

text \<open>
  While the required bytes are at most \<open>2^63 - 2^30\<close>, the rounded-up size fits an
  \<^verbatim>\<open>int64\<close> and \<open>RoundUpBytes\<close> returns it.
\<close>

lemma sint_RoundUpBytes:
  assumes "sint volumeSizeBytes \<le> 2 ^ 63 - GiB"
  shows "sint (RoundUpBytes volumeSizeBytes) = roundedUpSize (sint volumeSizeBytes)"
proof -
  let ?c = "- ((- sint volumeSizeBytes) div GiB) * GiB"
  have "- (2 ^ 63) \<le> sint volumeSizeBytes"
    by (rule sint_int64_lower)
  with round_up_int(1) [of "sint volumeSizeBytes"] have lo: "- (2 ^ 63) \<le> ?c"
    by linarith
  from assms round_up_int(2) [of "sint volumeSizeBytes"] have hi: "?c < 2 ^ 63"
    by linarith
  have "sint (RoundUpBytes volumeSizeBytes) = signed_take_bit 63 ?c"
    unfolding RoundUpBytes_def by (subst sint_sbintrunc') simp
  also have "\<dots> = ?c"
    using lo hi by (simp add: signed_take_bit_int_eq_self)
  finally show ?thesis
    by (simp add: roundedUpSize_def)
qed

text \<open>
  C7, as the code has it. A capacity range whose limit is positive and below the
  rounded-up required bytes makes both CreateVolume and ControllerExpandVolume
  fail with \<open>InvalidArgument\<close>, whatever the rest of the request is, and the state
  comes back as it was, so no call has gone to the store, provided the required
  bytes are at most \<open>2^63 - 2^30\<close>, so that the rounded-up size fits an
  \<^verbatim>\<open>int64\<close>.
\<close>

theorem capacity_limit_rejected:
  assumes "0 <s LimitBytes capRange"
    and "sint (RequiredBytes capRange) \<le> 2 ^ 63 - GiB"
    and "sint (LimitBytes capRange) < roundedUpSize (sint (RequiredBytes capRange))"
  shows "(CreateVolumeRequest.CapacityRange creq = Some capRange
            \<longrightarrow> CreateVolume DefaultVolumeSize d creq w = (Inl (Status InvalidArgument), w))
         \<and> (ControllerExpandVolumeRequest.CapacityRange ereq = Some capRange
            \<longrightarrow> ControllerExpandVolume d ereq w = (Inl (Status InvalidArgument), w))"
proof -
  from assms(2,3) have "LimitBytes capRange <s RoundUpBytes (RequiredBytes capRange)"
    by (simp add: word_sless_alt sint_RoundUpBytes)
  with assms(1) show ?thesis
    by (rule capacity_limit_guard)
qed

theorem capacity_limit_rejected_witness:
  "CreateVolume 10737418240 (fixedCloud (Inr disk0) (False, None) None (Inr 5))
       (createRequest (Some \<lparr>RequiredBytes = 5000000000, LimitBytes = 4000000000\<rparr>) []) world0 =
     (Inl (Status InvalidArgument), world0)
   \<and> ControllerExpandVolume (fixedCloud (Inr disk0) (False, None) None (Inr 5))
       (expandRequest 5000000000 4000000000) world0 =
     (Inl (Status InvalidArgument), world0)"
  using capacity_limit_rejected [of "\<lparr>RequiredBytes = 5000000000, LimitBytes = 4000000000\<rparr>"
      "createRequest (Some \<lparr>RequiredBytes = 5000000000, LimitBytes = 4000000000\<rparr>) []"
      10737418240 "fixedCloud (Inr disk0) (False, None) None (Inr 5)" world0
      "expandRequest 5000000000 4000000000"]
  by (simp add: createRequest_def expandRequest_def roundedUpSize_def GiB_def word_sless_alt)

text \<open>
  The claim as the spec states it fails where the rounded-up size does not fit an
  \<^verbatim>\<open>int64\<close>. For required bytes \<open>2^63 - 2^30 + 1\<close> the rounded-up size is \<open>2^63\<close>,
  above the largest limit there is, \<open>2^63 - 1\<close>; the \<^verbatim>\<open>int64\<close> that reaches the guard
  is \<open>- 2^63\<close>, the guard lets it pass, and both operations call the store with it.
\<close>

theorem capacity_limit_rejected_counterexample:
  "0 <s (9223372036854775807 :: int64)
   \<and> sint (9223372036854775807 :: int64) < roundedUpSize (sint (9223372035781033985 :: int64))
   \<and> ControllerExpandVolume (fixedCloud (Inr disk0) (False, None) None (Inr 5))
       (expandRequest 9223372035781033985 9223372036854775807) world0 =
     (Inr \<lparr>ControllerExpandVolumeResponse.CapacityBytes = 5368709120, NodeExpansionRequired = True\<rparr>,
      \<lparr>remote = (), calls = [CallResizeDisk ''v-123'' 9223372036854775808]\<rparr>)
   \<and> CreateVolume 10737418240 (fixedCloud (Inr disk0) (False, None) None (Inr 5))
       (createRequest (Some \<lparr>RequiredBytes = 9223372035781033985,
                             LimitBytes = 9223372036854775807\<rparr>) []) world0 =
     (Inr (newCreateVolumeResponse disk0),
      \<lparr>remote = (),
       calls = [CallCreateDisk ''vol1''
                  \<lparr>Shareable = False, DiskOptions.CapacityBytes = 9223372036854775808,
                   VolumeType = ''''\<rparr>]\<rparr>)"
proof -
  have r: "RoundUpBytes 9223372035781033985 = 9223372036854775808"
    by (simp add: RoundUpBytes_def GiB_def)
  have g: "\<not> (9223372036854775807 :: int64) <s 9223372036854775808"
    by (simp add: word_sless_alt)
  show ?thesis
    by (simp add: ControllerExpandVolume_def CreateVolume_def getVolSizeBytes_def
        cloud_ResizeDisk_def cloud_CreateDisk_def issue_def Let_def expandRequest_def
        createRequest_def world0_def fixedCloud_def r g GiBToBytes_def GiB_def roundedUpSize_def
        word_sless_alt isValidVolumeCapabilities_singleNodeWriterCap)
qed

subsection \<open>DeleteVolume\<close>

text \<open>
  C6. A DeleteVolume call with a volume ID whose existence query answers
  not-found succeeds after that one query, without a delete call; a second call
  right after it, answered not-found again, succeeds in the same way.
\<close>

theorem DeleteVolume_not_found:
  assumes "DeleteVolumeRequest.VolumeId req \<noteq> []"
    and "GetDiskByID (cloud d) (DeleteVolumeRequest.VolumeId req) (remote w)
           = (Inl ErrNotFound, s1)"
  shows "DeleteVolume d req w =
           (Inr DeleteVolumeResponse,
            \<lparr>remote = s1, calls = calls w @ [CallGetDiskByID (DeleteVolumeRequest.VolumeId req)]\<rparr>)
         \<and> (GetDiskByID (cloud d) (DeleteVolumeRequest.VolumeId req) s1 = (Inl ErrNotFound, s2)
            \<longrightarrow> DeleteVolume d req
                  \<lparr>remote = s1,
                   calls = calls w @ [CallGetDiskByID (DeleteVolumeRequest.VolumeId req)]\<rparr> =
                  (Inr DeleteVolumeResponse,
                   \<lparr>remote = s2,
                    calls = calls w @ [CallGetDiskByID (DeleteVolumeRequest.VolumeId req),
                                       CallGetDiskByID (DeleteVolumeRequest.VolumeId req)]\<rparr>))"
  using assms
  by (simp add: DeleteVolume_def cloud_GetDiskByID_def issue_def Let_def)

theorem DeleteVolume_not_found_witness:
  "DeleteVolume (fixedCloud (Inl ErrNotFound) (False, None) None (Inr 2)) deleteRequest world0 =
     (Inr DeleteVolumeResponse, \<lparr>remote = (), calls = [CallGetDiskByID ''v-123'']\<rparr>)
   \<and> DeleteVolume (fixedCloud (Inl ErrNotFound) (False, None) None (Inr 2)) deleteRequest
       \<lparr>remote = (), calls = [CallGetDiskByID ''v-123'']\<rparr> =
     (Inr DeleteVolumeResponse,
      \<lparr>remote = (), calls = [CallGetDiskByID ''v-123'', CallGetDiskByID ''v-123'']\<rparr>)"
  using DeleteVolume_not_found [of deleteRequest
      "fixedCloud (Inl ErrNotFound) (False, None) None (Inr 2)" world0 "()" "()"]
  by (simp add: deleteRequest_def world0_def fixedCloud_def)

text \<open>
  C9. When the existence query of a DeleteVolume call fails with an error other
  than not-found, the error is dropped and the delete call is issued; the result
  is success when the delete succeeds and \<open>Internal\<close> when it fails.
\<close>

theorem DeleteVolume_query_error_discarded:
  assumes "DeleteVolumeRequest.VolumeId req \<noteq> []"
    and "GetDiskByID (cloud d) (DeleteVolumeRequest.VolumeId req) (remote w) = (Inl err, s1)"
    and "err \<noteq> ErrNotFound"
    and "DeleteDisk (cloud d) (DeleteVolumeRequest.VolumeId req) s1 = (r, s2)"
  shows "DeleteVolume d req w =
           (case r of None \<Rightarrow> Inr DeleteVolumeResponse | Some e \<Rightarrow> Inl (Status Internal),
            \<lparr>remote = s2,
             calls = calls w @ [CallGetDiskByID (DeleteVolumeRequest.VolumeId req),
                                CallDeleteDisk (DeleteVolumeRequest.VolumeId req)]\<rparr>)"
  using assms
  by (simp add: DeleteVolume_def cloud_GetDiskByID_def cloud_DeleteDisk_def issue_def Let_def
      split: option.splits)

theorem DeleteVolume_query_error_discarded_witness:
  "DeleteVolume (fixedCloud (Inl (ErrOther ''timeout'')) (False, None) None (Inr 2))
       deleteRequest world0 =
     (Inr DeleteVolumeResponse,
      \<lparr>remote = (), calls = [CallGetDiskByID ''v-123'', CallDeleteDisk ''v-123'']\<rparr>)
   \<and> DeleteVolume (fixedCloud (Inl (ErrOther ''timeout'')) (False, None)
         (Some (ErrOther ''volume in use'')) (Inr 2)) deleteRequest world0 =
     (Inl (Status Internal),
      \<lparr>remote = (), calls = [CallGetDiskByID ''v-123'', CallDeleteDisk ''v-123'']\<rparr>)"
  using DeleteVolume_query_error_discarded [of deleteRequest
      "fixedCloud (Inl (ErrOther ''timeout'')) (False, None) None (Inr 2)" world0
      "ErrOther ''timeout''" "()" None "()"]
    DeleteVolume_query_error_discarded [of deleteRequest
      "fixedCloud (Inl (ErrOther ''timeout'')) (False, None) (Some (ErrOther ''volume in use'')) (Inr 2)"
      world0 "ErrOther ''timeout''" "()" "Some (ErrOther ''volume in use'')" "()"]
  by (simp add: deleteRequest_def world0_def fixedCloud_def)

subsection \<open>ControllerUnpublishVolume\<close>

text \<open>
  C4. A ControllerUnpublishVolume call with both IDs on a volume that the store
  finds succeeds without a detach call when the attachment query reports
  not-attached, with or without an error beside it.
\<close>

theorem ControllerUnpublishVolume_not_attached:
  assumes "ControllerUnpublishVolumeRequest.VolumeId req \<noteq> []"
    and "ControllerUnpublishVolumeRequest.NodeId req \<noteq> []"
    and "GetDiskByID (cloud d) (ControllerUnpublishVolumeRequest.VolumeId req) (remote w)
           = (Inr disk, s1)"
    and "IsAttached (cloud d) (ControllerUnpublishVolumeRequest.VolumeId req)
           (ControllerUnpublishVolumeRequest.NodeId req) s1 = ((False, err), s2)"
  shows "ControllerUnpublishVolume d req w =
           (Inr ControllerUnpublishVolumeResponse,
            \<lparr>remote = s2,
             calls = calls w @
               [CallGetDiskByID (ControllerUnpublishVolumeRequest.VolumeId req),
                CallIsAttached (ControllerUnpublishVolumeRequest.VolumeId req)
                  (ControllerUnpublishVolumeRequest.NodeId req)]\<rparr>)"
  using assms
  by (simp add: ControllerUnpublishVolume_def cloud_GetDiskByID_def cloud_IsAttached_def
      issue_def Let_def)

theorem ControllerUnpublishVolume_not_attached_witness:
  "ControllerUnpublishVolume
       (fixedCloud (Inr disk0) (False, Some (ErrOther ''connection reset'')) None (Inr 2))
       unpublishRequest world0 =
     (Inr ControllerUnpublishVolumeResponse,
      \<lparr>remote = (), calls = [CallGetDiskByID ''v-123'', CallIsAttached ''v-123'' ''node-A'']\<rparr>)"
  using ControllerUnpublishVolume_not_attached [of unpublishRequest
      "fixedCloud (Inr disk0) (False, Some (ErrOther ''connection reset'')) None (Inr 2)"
      world0 disk0 "()" "Some (ErrOther ''connection reset'')" "()"]
  by (simp add: unpublishRequest_def world0_def fixedCloud_def)

subsection \<open>ControllerPublishVolume\<close>

text \<open>
  Every successful publish call returns the publish context that maps the device
  key to the worldWideName of the disk that its own get-disk-by-id query returned.
\<close>

lemma ControllerPublishVolume_success:
  assumes "ControllerPublishVolume WWNKey d req w = (Inr resp, w')"
  shows "\<exists>disk. fst (GetDiskByID (cloud d) (ControllerPublishVolumeRequest.VolumeId req)
                     (snd (GetPVMInstanceByID (cloud d) (ControllerPublishVolumeRequest.NodeId req)
                        (remote w)))) = Inr disk
               \<and> PublishContext resp = [WWNKey \<mapsto> WWN disk]"
  using assms
  by (auto simp: ControllerPublishVolume_def cloud_GetPVMInstanceByID_def cloud_GetDiskByID_def
      cloud_IsAttached_def cloud_AttachDisk_def issue_def Let_def
      split: if_splits option.splits sum.splits prod.splits)

text \<open>
  C5. A ControllerPublishVolume call with valid inputs, whose node and volume
  exist and whose attachment query reports the volume attached, succeeds after
  the three queries, without an attach call, with the publish context that maps
  the device key to the worldWideName of the volume. Hence any other successful
  call with the same request, in which the store reports the same worldWideName
  for the volume, returns the identical response.
\<close>

theorem ControllerPublishVolume_already_attached:
  assumes "ControllerPublishVolumeRequest.VolumeId req \<noteq> []"
    and "ControllerPublishVolumeRequest.NodeId req \<noteq> []"
    and "VolumeCapability req = Some volCap"
    and "isValidVolumeCapabilities [volCap]"
    and "GetPVMInstanceByID (cloud d) (ControllerPublishVolumeRequest.NodeId req) (remote w)
           = (None, s1)"
    and "GetDiskByID (cloud d) (ControllerPublishVolumeRequest.VolumeId req) s1 = (Inr disk, s2)"
    and "IsAttached (cloud d) (ControllerPublishVolumeRequest.VolumeId req)
           (ControllerPublishVolumeRequest.NodeId req) s2 = ((True, err), s3)"
  shows "ControllerPublishVolume WWNKey d req w =
           (Inr \<lparr>PublishContext = [WWNKey \<mapsto> WWN disk]\<rparr>,
            \<lparr>remote = s3,
             calls = calls w @
               [CallGetPVMInstanceByID (ControllerPublishVolumeRequest.NodeId req),
                CallGetDiskByID (ControllerPublishVolumeRequest.VolumeId req),
                CallIsAttached (ControllerPublishVolumeRequest.VolumeId req)
                  (ControllerPublishVolumeRequest.NodeId req)]\<rparr>)
         \<and> (\<forall>w2 resp2 w2' disk2.
               ControllerPublishVolume WWNKey d req w2 = (Inr resp2, w2')
               \<and> fst (GetDiskByID (cloud d) (ControllerPublishVolumeRequest.VolumeId req)
                       (snd (GetPVMInstanceByID (cloud d)
                          (ControllerPublishVolumeRequest.NodeId req) (remote w2)))) = Inr disk2
               \<and> WWN disk2 = WWN disk
               \<longrightarrow> resp2 = \<lparr>PublishContext = [WWNKey \<mapsto> WWN disk]\<rparr>)"
proof (intro conjI allI impI)
  show "ControllerPublishVolume WWNKey d req w =
           (Inr \<lparr>PublishContext = [WWNKey \<mapsto> WWN disk]\<rparr>,
            \<lparr>remote = s3,
             calls = calls w @
               [CallGetPVMInstanceByID (ControllerPublishVolumeRequest.NodeId req),
                CallGetDiskByID (ControllerPublishVolumeRequest.VolumeId req),
                CallIsAttached (ControllerPublishVolumeRequest.VolumeId req)
                  (ControllerPublishVolumeRequest.NodeId req)]\<rparr>)"
    using assms
    by (simp add: ControllerPublishVolume_def cloud_GetPVMInstanceByID_def cloud_GetDiskByID_def
        cloud_IsAttached_def issue_def Let_def)
next
  fix w2 :: "'a world" and resp2 w2' disk2
  assume second: "ControllerPublishVolume WWNKey d req w2 = (Inr resp2, w2')
      \<and> fst (GetDiskByID (cloud d) (ControllerPublishVolumeRequest.VolumeId req)
              (snd (GetPVMInstanceByID (cloud d)
                 (ControllerPublishVolumeRequest.NodeId req) (remote w2)))) = Inr disk2
      \<and> WWN disk2 = WWN disk"
  then obtain disk' where "fst (GetDiskByID (cloud d) (ControllerPublishVolumeRequest.VolumeId req)
              (snd (GetPVMInstanceByID (cloud d)
                 (ControllerPublishVolumeRequest.NodeId req) (remote w2)))) = Inr disk'"
    and "PublishContext resp2 = [WWNKey \<mapsto> WWN disk']"
    using ControllerPublishVolume_success by blast
  with second have "PublishContext resp2 = [WWNKey \<mapsto> WWN disk]"
    by simp
  then show "resp2 = \<lparr>PublishContext = [WWNKey \<mapsto> WWN disk]\<rparr>"
    by (cases resp2) simp
qed

theorem ControllerPublishVolume_already_attached_witness:
  "ControllerPublishVolume ''wwn'' (fixedCloud (Inr disk0) (True, None) None (Inr 2))
       publishRequest world0 =
     (Inr \<lparr>PublishContext = [''wwn'' \<mapsto> ''600507681081001d48000000000004b2'']\<rparr>,
      \<lparr>remote = (),
       calls = [CallGetPVMInstanceByID ''node-A'', CallGetDiskByID ''v-123'',
                CallIsAttached ''v-123'' ''node-A'']\<rparr>)
   \<and> fst (ControllerPublishVolume ''wwn'' (fixedCloud (Inr disk0) (True, None) None (Inr 2))
       publishRequest
       \<lparr>remote = (),
        calls = [CallGetPVMInstanceByID ''node-A'', CallGetDiskByID ''v-123'',
                 CallIsAttached ''v-123'' ''node-A'']\<rparr>) =
     Inr \<lparr>PublishContext = [''wwn'' \<mapsto> ''600507681081001d48000000000004b2'']\<rparr>"
proof -
  let ?d = "fixedCloud (Inr disk0) (True, None) None (Inr 2)"
  let ?w1 = "\<lparr>remote = (),
        calls = [CallGetPVMInstanceByID ''node-A'', CallGetDiskByID ''v-123'',
                 CallIsAttached ''v-123'' ''node-A'']\<rparr>"
  have both: "ControllerPublishVolume ''wwn'' ?d publishRequest world0 =
           (Inr \<lparr>PublishContext = [''wwn'' \<mapsto> WWN disk0]\<rparr>, ?w1)
         \<and> (\<forall>w2 resp2 w2' disk2.
               ControllerPublishVolume ''wwn'' ?d publishRequest w2 = (Inr resp2, w2')
               \<and> fst (GetDiskByID (cloud ?d) (ControllerPublishVolumeRequest.VolumeId publishRequest)
                       (snd (GetPVMInstanceByID (cloud ?d)
                          (ControllerPublishVolumeRequest.NodeId publishRequest) (remote w2)))) = Inr disk2
               \<and> WWN disk2 = WWN disk0
               \<longrightarrow> resp2 = \<lparr>PublishContext = [''wwn'' \<mapsto> WWN disk0]\<rparr>)"
    using ControllerPublishVolume_already_attached [of publishRequest singleNodeWriterCap ?d
        world0 "()" disk0 "()" None "()" "''wwn''"]
    by (simp add: publishRequest_def world0_def fixedCloud_def
        isValidVolumeCapabilities_singleNodeWriterCap)
  obtain resp2 w2' where second: "ControllerPublishVolume ''wwn'' ?d publishRequest ?w1 = (Inr resp2, w2')"
    by (simp add: ControllerPublishVolume_def cloud_GetPVMInstanceByID_def cloud_GetDiskByID_def
        cloud_IsAttached_def issue_def Let_def publishRequest_def fixedCloud_def
        isValidVolumeCapabilities_singleNodeWriterCap)
  have "fst (GetDiskByID (cloud ?d) (ControllerPublishVolumeRequest.VolumeId publishRequest)
          (snd (GetPVMInstanceByID (cloud ?d)
             (ControllerPublishVolumeRequest.NodeId publishRequest) (remote ?w1)))) = Inr disk0"
    by (simp add: fixedCloud_def)
  with both second have "resp2 = \<lparr>PublishContext = [''wwn'' \<mapsto> WWN disk0]\<rparr>"
    by blast
  with both second show ?thesis
    by (simp add: disk0_def)
qed

text \<open>
  C10. When the attachment query of a ControllerPublishVolume call reports
  not-attached together with an error, the attach call is still issued, and the
  result depends on the outcome of the attach call alone: success with the publish
  context, \<open>AlreadyExists\<close> on the already-exists error, \<open>Internal\<close> on any other
  error. The error of the query appears nowhere in the result.
\<close>

theorem ControllerPublishVolume_query_error_discarded:
  assumes "ControllerPublishVolumeRequest.VolumeId req \<noteq> []"
    and "ControllerPublishVolumeRequest.NodeId req \<noteq> []"
    and "VolumeCapability req = Some volCap"
    and "isValidVolumeCapabilities [volCap]"
    and "GetPVMInstanceByID (cloud d) (ControllerPublishVolumeRequest.NodeId req) (remote w)
           = (None, s1)"
    and "GetDiskByID (cloud d) (ControllerPublishVolumeRequest.VolumeId req) s1 = (Inr disk, s2)"
    and "IsAttached (cloud d) (ControllerPublishVolumeRequest.VolumeId req)
           (ControllerPublishVolumeRequest.NodeId req) s2 = ((False, Some queryErr), s3)"
    and "AttachDisk (cloud d) (ControllerPublishVolumeRequest.VolumeId req)
           (ControllerPublishVolumeRequest.NodeId req) s3 = (r, s4)"
  shows "ControllerPublishVolume WWNKey d req w =
           (case r of
              None \<Rightarrow> Inr \<lparr>PublishContext = [WWNKey \<mapsto> WWN disk]\<rparr>
            | Some attachErr \<Rightarrow>
                Inl (Status (case attachErr of ErrAlreadyExists \<Rightarrow> AlreadyExists | _ \<Rightarrow> Internal)),
            \<lparr>remote = s4,
             calls = calls w @
               [CallGetPVMInstanceByID (ControllerPublishVolumeRequest.NodeId req),
                CallGetDiskByID (ControllerPublishVolumeRequest.VolumeId req),
                CallIsAttached (ControllerPublishVolumeRequest.VolumeId req)
                  (ControllerPublishVolumeRequest.NodeId req),
                CallAttachDisk (ControllerPublishVolumeRequest.VolumeId req)
                  (ControllerPublishVolumeRequest.NodeId req)]\<rparr>)"
  using assms
  by (simp add: ControllerPublishVolume_def cloud_GetPVMInstanceByID_def cloud_GetDiskByID_def
      cloud_IsAttached_def cloud_AttachDisk_def issue_def Let_def
      split: option.splits cloud_error.splits)

theorem ControllerPublishVolume_query_error_discarded_witness:
  "ControllerPublishVolume ''wwn''
       (fixedCloud (Inr disk0) (False, Some (ErrOther ''connection reset'')) None (Inr 2))
       publishRequest world0 =
     (Inr \<lparr>PublishContext = [''wwn'' \<mapsto> ''600507681081001d48000000000004b2'']\<rparr>,
      \<lparr>remote = (),
       calls = [CallGetPVMInstanceByID ''node-A'', CallGetDiskByID ''v-123'',
                CallIsAttached ''v-123'' ''node-A'', CallAttachDisk ''v-123'' ''node-A'']\<rparr>)
   \<and> ControllerPublishVolume ''wwn''
       (fixedCloud (Inr disk0) (False, Some (ErrOther ''connection reset''))
          (Some ErrAlreadyExists) (Inr 2))
       publishRequest world0 =
     (Inl (Status AlreadyExists),
      \<lparr>remote = (),
       calls = [CallGetPVMInstanceByID ''node-A'', CallGetDiskByID ''v-123'',
                CallIsAttached ''v-123'' ''node-A'', CallAttachDisk ''v-123'' ''node-A'']\<rparr>)"
  using ControllerPublishVolume_query_error_discarded [of publishRequest singleNodeWriterCap
      "fixedCloud (Inr disk0) (False, Some (ErrOther ''connection reset'')) None (Inr 2)"
      world0 "()" disk0 "()" "ErrOther ''connection reset''" "()" None "()" "''wwn''"]
    ControllerPublishVolume_query_error_discarded [of publishRequest singleNodeWriterCap
      "fixedCloud (Inr disk0) (False, Some (ErrOther ''connection reset'')) (Some ErrAlreadyExists) (Inr 2)"
      world0 "()" disk0 "()" "ErrOther ''connection reset''" "()" "Some ErrAlreadyExists" "()" "''wwn''"]
  by (simp add: publishRequest_def world0_def fixedCloud_def disk0_def
      isValidVolumeCapabilities_singleNodeWriterCap)

end
